theory Spec2Isabelle
  imports Complex_Main "HOL-Library.Sublist" "HOL-Library.Word"
begin

section \<open>gomarket: the forecast invocation and the chart assembly of main.go\<close>

text \<open>
  The program fetches a price series, hands it to an embedded predictor executable over
  standard input, decodes the forecast from standard output and draws both into
  \<^verbatim>\<open>plot.png\<close>. The three functions of \<^verbatim>\<open>main.go\<close> that do this are
  \<^verbatim>\<open>callPythonARIMA\<close>, \<^verbatim>\<open>plotData\<close> and the callback of the fetch button in
  \<^verbatim>\<open>main\<close>. They are embedded here as functions that return the list of effects they
  perform, in program order, together with their result.

  Conventions of the embedding:
  \<^item> A \<^verbatim>\<open>float64\<close> is a \<open>real\<close>. Prices and predictions both come out of
    \<^verbatim>\<open>json.Unmarshal\<close>, which yields finite values only, and the code copies them
    without arithmetic. NaN and the infinities are outside the model.
  \<^item> Go's \<^verbatim>\<open>int\<close> is \<open>int\<close>. The only arithmetic is on slice lengths and loop
    indices; a slice of \<^verbatim>\<open>float64\<close> has fewer than \<open>2^53\<close> elements, so nothing
    wraps and every \<^verbatim>\<open>float64(i)\<close> conversion is exact.
  \<^item> An index outside a slice and a negative length given to \<^verbatim>\<open>make\<close> are run-time
    panics; the model has a branch for each.
  \<^item> What the operating system, the child process and the libraries answer is an
    input: the record \<open>world\<close> holds the answers of the outside, the record \<open>golib\<close>
    the two pure library functions whose text format is not modelled.
\<close>

subsection \<open>Values, errors, results\<close>

type_synonym float64 = real

record StockData =
  Symbol :: string
  Close :: float64
  Date :: string

text \<open>The two error types of \<^verbatim>\<open>encoding/json\<close> that decoding can return: a syntax error
  (message, offset) and a type mismatch (description of the JSON value, offset).\<close>

datatype json_error =
    SyntaxError string nat
  | UnmarshalTypeError string nat

text \<open>The error values the code passes around. \<open>ExitError\<close> is \<^verbatim>\<open>*exec.ExitError\<close>: the
  exit status and the \<^verbatim>\<open>Stderr\<close> field, which only \<^verbatim>\<open>Cmd.Output\<close> fills.\<close>

datatype go_error =
    OSError string
  | ExitError nat string
  | UnsupportedValueError string
  | JSONError json_error

function itoa :: "nat \<Rightarrow> string" where
  "itoa n = (if n < 10 then [''0123456789'' ! n] else itoa (n div 10) @ [''0123456789'' ! (n mod 10)])"
  by pat_completeness auto
termination
  by (relation "measure (\<lambda>n. n)") auto

declare itoa.simps [simp del]

text \<open>The \<^verbatim>\<open>Error()\<close> text of each error value.\<close>

fun Error :: "go_error \<Rightarrow> string" where
  "Error (OSError msg) = msg"
| "Error (ExitError status _) = ''exit status '' @ itoa status"
| "Error (UnsupportedValueError s) = ''json: unsupported value: '' @ s"
| "Error (JSONError (SyntaxError msg _)) = msg"
| "Error (JSONError (UnmarshalTypeError v _)) = ''json: cannot unmarshal '' @ v @ '' into Go value of type []float64''"

text \<open>How a call ends: it returns a value, it panics, or it blocks for ever (a child
  process that never exits).\<close>

datatype 'a outcome = Returns 'a | Panics | Blocks

subsection \<open>The chart\<close>

record XY =
  X :: float64
  Y :: float64

type_synonym XYs = "XY list"

datatype RGBA = RGBA "8 word" "8 word" "8 word" "8 word"

record Line =
  XYs :: XYs
  Color :: RGBA

record Plot =
  Title :: string
  XLabel :: string
  YLabel :: string
  Plotters :: "Line list"
  Legend :: "(string \<times> Line) list"

definition plot_New :: Plot where
  "plot_New = \<lparr>Title = [], XLabel = [], YLabel = [], Plotters = [], Legend = []\<rparr>"

text \<open>\<^verbatim>\<open>vg.Inch\<close>, in points.\<close>

definition Inch :: real where
  "Inch = 72"

subsection \<open>Library functions and the outside world\<close>

record golib =
  FormatFloat :: "float64 \<Rightarrow> string"
  Unmarshal :: "string \<Rightarrow> json_error + float64 list"

datatype proc_outcome =
    StartFails string
  | Exits nat string string
  | NeverExits

record world =
  fetched :: "string \<Rightarrow> nat \<Rightarrow> go_error + StockData list"
  tempFile :: "go_error + string"
  writeExe :: "go_error option"
  runExe :: "string \<Rightarrow> string \<Rightarrow> proc_outcome"
  savePlot :: "Plot \<Rightarrow> go_error option"

datatype logarg = S string | E go_error | N nat | Fs "float64 list"

datatype event =
    Println "logarg list"
  | Printf string "logarg list"
  | TempFile string
  | Write string
  | Close_file string
  | Spawn string string
  | Remove string
  | Save Plot real real string
  | SetContent string

subsection \<open>plotData\<close>

definition zeroXY :: XY where
  "zeroXY = \<lparr>X = 0, Y = 0\<rparr>"

definition make_XYs :: "int \<Rightarrow> XYs option" where
  "make_XYs n = (if n < 0 then None else Some (replicate (nat n) zeroXY))"

function stockLoop :: "float64 list \<Rightarrow> int \<Rightarrow> int \<Rightarrow> XYs \<Rightarrow> XYs option" where
  "stockLoop prices startIndex i stockPoints =
     (if i < int (length prices) then
        (if 0 \<le> i - startIndex \<and> i - startIndex < int (length stockPoints) \<and> 0 \<le> i then
           stockLoop prices startIndex (i + 1)
             (stockPoints[nat (i - startIndex) :=
                (stockPoints ! nat (i - startIndex))
                  \<lparr>X := real_of_int (i - startIndex), Y := prices ! nat i\<rparr>])
         else None)
      else Some stockPoints)"
  by pat_completeness auto
termination
  by (relation "measure (\<lambda>(prices, startIndex, i, stockPoints). nat (int (length prices) - i))") auto

declare stockLoop.simps [simp del]

function predLoop :: "float64 list \<Rightarrow> int \<Rightarrow> int \<Rightarrow> XYs \<Rightarrow> XYs option" where
  "predLoop predictions base i predPoints =
     (if i < int (length predictions) then
        (if 0 \<le> i \<and> i < int (length predPoints) then
           predLoop predictions base (i + 1)
             (predPoints[nat i :=
                (predPoints ! nat i)\<lparr>X := real_of_int (base + i), Y := predictions ! nat i\<rparr>])
         else None)
      else Some predPoints)"
  by pat_completeness auto
termination
  by (relation "measure (\<lambda>(predictions, base, i, predPoints). nat (int (length predictions) - i))") auto

declare predLoop.simps [simp del]

definition startIndex_of :: "float64 list \<Rightarrow> int" where
  "startIndex_of prices = int (length prices) - min 90 (int (length prices))"

definition assemble :: "string \<Rightarrow> XYs \<Rightarrow> XYs \<Rightarrow> Plot" where
  "assemble symbol stockPoints predPoints =
     (let p = plot_New\<lparr>Title := ''Stock Prices and Predictions for '' @ symbol\<rparr>;
          p = p\<lparr>XLabel := ''Days''\<rparr>;
          p = p\<lparr>YLabel := ''Price''\<rparr>;
          line = \<lparr>XYs = stockPoints, Color = RGBA 255 0 0 255\<rparr>;
          predLine = \<lparr>XYs = predPoints, Color = RGBA 0 255 0 255\<rparr>;
          p = p\<lparr>Plotters := Plotters p @ [line, predLine]\<rparr>;
          p = p\<lparr>Legend := Legend p @ [(''Stock'', line)]\<rparr>;
          p = p\<lparr>Legend := Legend p @ [(''Prediction'', predLine)]\<rparr>
      in p)"

text \<open>Lines 122 to 128: the start index, the allocation and the loop over the window.\<close>

definition stockPoints_of :: "float64 list \<Rightarrow> XYs option" where
  "stockPoints_of prices =
     (let startIndex = startIndex_of prices in
      case make_XYs (int (length prices) - startIndex) of
        None \<Rightarrow> None
      | Some stockPoints \<Rightarrow> stockLoop prices startIndex startIndex stockPoints)"

text \<open>Lines 130 to 134: the allocation and the loop over the predictions.\<close>

definition predPoints_of :: "float64 list \<Rightarrow> float64 list \<Rightarrow> XYs option" where
  "predPoints_of prices predictions =
     (let startIndex = startIndex_of prices in
      case make_XYs (int (length predictions)) of
        None \<Rightarrow> None
      | Some predPoints \<Rightarrow> predLoop predictions (int (length prices) - startIndex) 0 predPoints)"

text \<open>\<^verbatim>\<open>plotter.NewLine\<close> copies the points and fails only on NaN or an infinity, which the
  values of the model are not; the code discards its error. \<^verbatim>\<open>p.Save\<close> belongs to the
  plotting library: the call is an effect and its answer comes from the world.\<close>

definition plotData :: "world \<Rightarrow> float64 list \<Rightarrow> float64 list \<Rightarrow> string \<Rightarrow> event list \<times> go_error option outcome" where
  "plotData w prices predictions symbol =
     (case stockPoints_of prices of
        None \<Rightarrow> ([], Panics)
      | Some stockPoints \<Rightarrow>
      (case predPoints_of prices predictions of
        None \<Rightarrow> ([], Panics)
      | Some predPoints \<Rightarrow>
          (let p = assemble symbol stockPoints predPoints
           in ([Save p (8 * Inch) (4 * Inch) ''plot.png''], Returns (savePlot w p)))))"

text \<open>The windowing rule in the words of the specification:
  \<^verbatim>\<open>prices[max(0, len(prices) - 90) : len(prices)]\<close>, a Go slice expression.\<close>

definition spec_historicalWindow :: "float64 list \<Rightarrow> float64 list" where
  "spec_historicalWindow prices =
     (let n = int (length prices); lo = max 0 (n - 90)
      in take (nat (n - lo)) (drop (nat lo) prices))"

text \<open>A sequence of values laid out along the horizontal axis from index \<open>k\<close> on.\<close>

definition points_from :: "nat \<Rightarrow> float64 list \<Rightarrow> XYs" where
  "points_from k ys = map (\<lambda>(i, y). \<lparr>X = real i, Y = y\<rparr>) (enumerate k ys)"

subsection \<open>callPythonARIMA\<close>

text \<open>\<^verbatim>\<open>json.Marshal\<close> of the map with the one key \<^verbatim>\<open>prices\<close>: an object with that key and
  the array of the values, in order, without spaces. The text of each number is the
  library's (\<open>FormatFloat\<close>). Marshalling fails on NaN and the infinities only, so on the
  values of the model it always succeeds. The slice is the non-nil one the caller makes.\<close>

fun join_comma :: "string list \<Rightarrow> string" where
  "join_comma [] = []"
| "join_comma [x] = x"
| "join_comma (x # y # ys) = x @ '','' @ join_comma (y # ys)"

definition json_Marshal :: "golib \<Rightarrow> float64 list \<Rightarrow> go_error + string" where
  \<open>json_Marshal L prices =
     Inr (''{"prices":['' @ join_comma (map (FormatFloat L) prices) @ '']}'')\<close>

text \<open>Effects that precede a computation, and a deferred call: it runs when the
  function returns or panics, not while it is blocked.\<close>

definition after :: "event list \<Rightarrow> event list \<times> 'a outcome \<Rightarrow> event list \<times> 'a outcome" where
  "after evs c = (evs @ fst c, snd c)"

definition deferred :: "event \<Rightarrow> event list \<times> 'a outcome \<Rightarrow> event list \<times> 'a outcome" where
  "deferred ev c = (case snd c of Blocks \<Rightarrow> c | _ \<Rightarrow> (fst c @ [ev], snd c))"

text \<open>\<^verbatim>\<open>cmd.Run\<close> is one step: it starts the program with the bytes of \<open>jsonData\<close>
  followed by end of input on its standard input, collects both output streams until the
  process has exited, and returns. \<open>Spawn\<close> records a child that was started, with the
  whole of its input. A start that fails leaves no child and an empty \<open>stderr\<close> buffer.\<close>

definition callPythonARIMA :: "golib \<Rightarrow> world \<Rightarrow> float64 list \<Rightarrow> event list \<times> (go_error + float64 list) outcome" where
  "callPythonARIMA L w prices =
     (case json_Marshal L prices of
        Inl err \<Rightarrow> ([], Returns (Inl err))
      | Inr jsonData \<Rightarrow>
      (case tempFile w of
        Inl err \<Rightarrow> ([], Returns (Inl err))
      | Inr tempExe \<Rightarrow>
          after [TempFile tempExe]
           (deferred (Remove tempExe)
             (case writeExe w of
                Some err \<Rightarrow> ([], Returns (Inl err))
              | None \<Rightarrow>
                  after [Write tempExe, Close_file tempExe]
                   (case runExe w tempExe jsonData of
                      StartFails msg \<Rightarrow>
                        ([Println [S ''Error calling ARIMA prediction:'', E (OSError msg),
                                   S ''Stderr:'', S []]],
                         Returns (Inl (OSError msg)))
                    | NeverExits \<Rightarrow> ([Spawn tempExe jsonData], Blocks)
                    | Exits status out stderr \<Rightarrow>
                        after [Spawn tempExe jsonData]
                         (if status \<noteq> 0 then
                            ([Println [S ''Error calling ARIMA prediction:'',
                                       E (ExitError status []), S ''Stderr:'', S stderr]],
                             Returns (Inl (ExitError status [])))
                          else
                            (case Unmarshal L out of
                               Inl err \<Rightarrow> ([], Returns (Inl (JSONError err)))
                             | Inr predictions \<Rightarrow> ([], Returns (Inr predictions)))))))))"

subsection \<open>The callback of the fetch button\<close>

text \<open>Lines 183 to 202: the guard on the number of prices, the call of the predictor,
  the plot and the update of the image.\<close>

definition predictAndPlot :: "golib \<Rightarrow> world \<Rightarrow> string \<Rightarrow> float64 list \<Rightarrow> event list \<times> unit outcome" where
  "predictAndPlot L w symbol prices =
     (if length prices < 2 then
        ([Println [S ''Not enough data points for predictions.'']], Returns ())
      else
        (case callPythonARIMA L w prices of
           (evs, Blocks) \<Rightarrow> (evs, Blocks)
         | (evs, Panics) \<Rightarrow> (evs, Panics)
         | (evs, Returns (Inl err)) \<Rightarrow>
             (evs @ [Println [S ''Error calling ARIMA prediction:'', E err]], Returns ())
         | (evs, Returns (Inr predictions)) \<Rightarrow>
             after evs
              (case plotData w prices predictions symbol of
                 (evp, Blocks) \<Rightarrow> (evp, Blocks)
               | (evp, Panics) \<Rightarrow> (evp, Panics)
               | (evp, Returns (Some err)) \<Rightarrow>
                   (evp @ [Println [S ''Error plotting data:'', E err]], Returns ())
               | (evp, Returns None) \<Rightarrow> (evp @ [SetContent ''plot.png''], Returns ()))))"

text \<open>Lines 162 to 203. \<^verbatim>\<open>fetchStockData\<close> is taken at its result, which the world gives.\<close>

definition fetchTapped :: "golib \<Rightarrow> world \<Rightarrow> string \<Rightarrow> event list \<times> unit outcome" where
  "fetchTapped L w symbol =
     (case fetched w symbol 12 of
        Inl err \<Rightarrow> ([Println [S ''Error fetching data:'', E err]], Returns ())
      | Inr data \<Rightarrow>
          after [Printf (''Fetched %d data points for symbol: %s'' @ [CHR 0x0A])
                   [N (length data), S symbol]]
           (if length data = 0 then
              ([Println [S ''No data returned for symbol:'', S symbol]], Returns ())
            else
              (let prices = map Close data in
               after [Printf (''Prices for %s: %v'' @ [CHR 0x0A]) [S symbol, Fs prices]]
                (predictAndPlot L w symbol prices))))"

text \<open>Predicates on effects.\<close>

fun is_Spawn :: "event \<Rightarrow> bool" where
  "is_Spawn (Spawn _ _) = True"
| "is_Spawn _ = False"

fun is_Save :: "event \<Rightarrow> bool" where
  "is_Save (Save _ _ _ _) = True"
| "is_Save _ = False"

fun is_TempFile :: "event \<Rightarrow> bool" where
  "is_TempFile (TempFile _) = True"
| "is_TempFile _ = False"

fun is_SetContent :: "event \<Rightarrow> bool" where
  "is_SetContent (SetContent _) = True"
| "is_SetContent _ = False"

fun is_Remove :: "event \<Rightarrow> bool" where
  "is_Remove (Remove _) = True"
| "is_Remove _ = False"

fun is_Println :: "event \<Rightarrow> bool" where
  "is_Println (Println _) = True"
| "is_Println _ = False"

fun started :: "proc_outcome \<Rightarrow> bool" where
  "started (StartFails _) = False"
| "started _ = True"

text \<open>The charts handed to \<^verbatim>\<open>p.Save\<close> and the inputs given to child processes, in order.\<close>

fun saved_plots :: "event list \<Rightarrow> Plot list" where
  "saved_plots [] = []"
| "saved_plots (Save p _ _ _ # evs) = p # saved_plots evs"
| "saved_plots (_ # evs) = saved_plots evs"

fun spawn_inputs :: "event list \<Rightarrow> string list" where
  "spawn_inputs [] = []"
| "spawn_inputs (Spawn _ stdin # evs) = stdin # spawn_inputs evs"
| "spawn_inputs (_ # evs) = spawn_inputs evs"

subsection \<open>Sample inputs\<close>

text \<open>The library at the sample values: the text of a whole, non-negative number as
  \<^verbatim>\<open>strconv\<close> prints it, and the answers of \<^verbatim>\<open>json.Unmarshal\<close> to the three outputs the
  sample processes write.\<close>

definition sample_lib :: golib where
  "sample_lib =
     \<lparr>FormatFloat = (\<lambda>x. itoa (nat \<lfloor>x\<rfloor>)),
      Unmarshal = (\<lambda>out.
        if out = ''[105,106]'' then Inr [105, 106]
        else if out = ''[]'' then Inr []
        else Inl (SyntaxError ''invalid character 'o' in literal null (expecting 'u')'' 2))\<rparr>"

definition sample_data :: "StockData list" where
  "sample_data = map (\<lambda>c. \<lparr>Symbol = ''AAPL'', Close = c, Date = ''2024-01-02''\<rparr>)
     [100, 101, 102, 103, 104]"

text \<open>A world in which everything works and the predictor answers \<^verbatim>\<open>[105,106]\<close>.\<close>

definition world_ok :: world where
  "world_ok =
     \<lparr>fetched = (\<lambda>symbol months. Inr sample_data),
      tempFile = Inr ''/tmp/arima_predict_1.exe'',
      writeExe = None,
      runExe = (\<lambda>name stdin. Exits 0 ''[105,106]'' []),
      savePlot = (\<lambda>p. None)\<rparr>"

text \<open>The predictor exits with status 1 and \<^verbatim>\<open>model failed\<close> on standard error.\<close>

definition world_exit1 :: world where
  "world_exit1 = world_ok\<lparr>runExe := (\<lambda>name stdin. Exits 1 [] ''model failed'')\<rparr>"

text \<open>The predictor exits with status 0 and \<^verbatim>\<open>not json\<close> on standard output.\<close>

definition world_not_json :: world where
  "world_not_json = world_ok\<lparr>runExe := (\<lambda>name stdin. Exits 0 ''not json'' [])\<rparr>"

text \<open>The series has a single point.\<close>

definition world_one_point :: world where
  "world_one_point = world_ok\<lparr>fetched := (\<lambda>symbol months. Inr (take 1 sample_data))\<rparr>"

text \<open>Another run: another temporary name, another answer of the predictor, a disk
  that refuses the image.\<close>

definition world_other :: world where
  "world_other =
     \<lparr>fetched = (\<lambda>symbol months. Inr sample_data),
      tempFile = Inr ''/tmp/arima_predict_2.exe'',
      writeExe = None,
      runExe = (\<lambda>name stdin. Exits 0 ''[]'' []),
      savePlot = (\<lambda>p. Some (OSError ''open plot.png: permission denied''))\<rparr>"

section \<open>Properties\<close>

subsection \<open>The loops of plotData\<close>

lemma XY_update_both: "(r::XY)\<lparr>X := a, Y := b\<rparr> = \<lparr>X = a, Y = b\<rparr>"
  by (cases r) simp

lemma stockLoop_from:
  "s \<le> i \<Longrightarrow> i \<le> length prices \<Longrightarrow> length pts = length prices - s \<Longrightarrow>
   stockLoop prices (int s) (int i) pts =
     Some (take (i - s) pts @ map (\<lambda>j. \<lparr>X = real (j - s), Y = prices ! j\<rparr>) [i..<length prices])"
proof (induction "length prices - i" arbitrary: i pts)
  case 0
  then have "i = length prices" by simp
  with 0 show ?case by (simp add: stockLoop.simps)
next
  case (Suc d)
  then have lt: "i < length prices" by simp
  let ?v = "\<lparr>X = real (i - s), Y = prices ! i\<rparr>"
  let ?pts = "pts[i - s := ?v]"
  have k: "i - s < length pts" using Suc.prems lt by simp
  have step: "stockLoop prices (int s) (int i) pts = stockLoop prices (int s) (int (Suc i)) ?pts"
  proof -
    have "int i - int s < int (length pts)" "nat (int i - int s) = i - s"
      using k Suc.prems(1) by linarith+
    then show ?thesis
      using lt Suc.prems(1) by (subst stockLoop.simps) (simp add: XY_update_both add.commute)
  qed
  have ih: "stockLoop prices (int s) (int (Suc i)) ?pts =
      Some (take (Suc i - s) ?pts @ map (\<lambda>j. \<lparr>X = real (j - s), Y = prices ! j\<rparr>) [Suc i..<length prices])"
    using Suc.hyps(2) Suc.prems lt by (intro Suc.hyps(1)) simp_all
  have tk: "take (Suc i - s) ?pts = take (i - s) pts @ [?v]"
    using k Suc.prems(1) by (simp add: Suc_diff_le take_Suc_conv_app_nth)
  show ?case
    unfolding step ih tk using lt by (simp add: upt_conv_Cons)
qed

lemma predLoop_from:
  "i \<le> length predictions \<Longrightarrow> length pts = length predictions \<Longrightarrow>
   predLoop predictions (int b) (int i) pts =
     Some (take i pts @ map (\<lambda>j. \<lparr>X = real (b + j), Y = predictions ! j\<rparr>) [i..<length predictions])"
proof (induction "length predictions - i" arbitrary: i pts)
  case 0
  then show ?case by (simp add: predLoop.simps)
next
  case (Suc d)
  then have lt: "i < length predictions" by simp
  let ?v = "\<lparr>X = real (b + i), Y = predictions ! i\<rparr>"
  let ?pts = "pts[i := ?v]"
  have step: "predLoop predictions (int b) (int i) pts = predLoop predictions (int b) (int (Suc i)) ?pts"
    using lt Suc.prems(2) by (subst predLoop.simps) (simp add: XY_update_both add.commute)
  have ih: "predLoop predictions (int b) (int (Suc i)) ?pts =
      Some (take (Suc i) ?pts @ map (\<lambda>j. \<lparr>X = real (b + j), Y = predictions ! j\<rparr>) [Suc i..<length predictions])"
    using Suc.hyps(2) Suc.prems lt by (intro Suc.hyps(1)) simp_all
  have tk: "take (Suc i) ?pts = take i pts @ [?v]"
    using lt Suc.prems(2) by (simp add: take_Suc_conv_app_nth)
  show ?case
    unfolding step ih tk using lt by (simp add: upt_conv_Cons)
qed

lemma points_from_nth:
  "points_from k ys = map (\<lambda>j. \<lparr>X = real (k + j), Y = ys ! j\<rparr>) [0..<length ys]"
  by (rule nth_equalityI) (simp_all add: points_from_def nth_enumerate_eq)

lemma startIndex_of_nat: "startIndex_of prices = int (length prices - 90)"
  by (simp add: startIndex_of_def min_def)

lemma stockPoints_of_eq:
  "stockPoints_of prices = Some (points_from 0 (drop (length prices - 90) prices))"
proof -
  let ?n = "length prices" and ?s = "length prices - 90"
  have "nat (int ?n - int ?s) = ?n - ?s" by linarith
  then have mk: "make_XYs (int ?n - startIndex_of prices) = Some (replicate (?n - ?s) zeroXY)"
    by (simp add: make_XYs_def startIndex_of_nat)
  have "stockPoints_of prices = stockLoop prices (int ?s) (int ?s) (replicate (?n - ?s) zeroXY)"
    by (simp add: stockPoints_of_def Let_def mk) (simp add: startIndex_of_nat)
  also have "\<dots> = Some (map (\<lambda>j. \<lparr>X = real (j - ?s), Y = prices ! j\<rparr>) [?s..<?n])"
    by (subst stockLoop_from) simp_all
  also have "map (\<lambda>j. \<lparr>X = real (j - ?s), Y = prices ! j\<rparr>) [?s..<?n]
      = points_from 0 (drop ?s prices)"
    unfolding points_from_nth by (rule nth_equalityI) simp_all
  finally show ?thesis .
qed

lemma predPoints_of_eq:
  "predPoints_of prices predictions = Some (points_from (min 90 (length prices)) predictions)"
proof -
  let ?n = "length prices" and ?m = "length predictions"
  have base: "int ?n - startIndex_of prices = int (min 90 ?n)"
    by (simp add: startIndex_of_def min_def)
  have "predPoints_of prices predictions =
      predLoop predictions (int (min 90 ?n)) (int 0) (replicate ?m zeroXY)"
    unfolding predPoints_of_def Let_def base make_XYs_def by simp
  also have "\<dots> = Some (map (\<lambda>j. \<lparr>X = real (min 90 ?n + j), Y = predictions ! j\<rparr>) [0..<?m])"
    by (subst predLoop_from) simp_all
  finally show ?thesis by (simp add: points_from_nth)
qed

subsection \<open>What plotData computes\<close>

lemma spec_historicalWindow_drop: "spec_historicalWindow prices = drop (length prices - 90) prices"
proof -
  have "nat (max 0 (int (length prices) - 90)) = length prices - 90" by linarith
  moreover have "nat (int (length prices) - max 0 (int (length prices) - 90)) = min 90 (length prices)"
    by linarith
  ultimately show ?thesis by (simp add: spec_historicalWindow_def Let_def)
qed

lemma plotData_eq:
  "plotData w prices predictions symbol =
     (let p = assemble symbol (points_from 0 (drop (length prices - 90) prices))
                (points_from (min 90 (length prices)) predictions)
      in ([Save p (8 * Inch) (4 * Inch) ''plot.png''], Returns (savePlot w p)))"
  by (simp add: plotData_def stockPoints_of_eq predPoints_of_eq)

lemma map_Y_points_from: "map Y (points_from k ys) = ys"
  by (rule nth_equalityI) (simp_all add: points_from_nth)

lemma map_X_points_from: "map X (points_from k ys) = map real [k..<k + length ys]"
  by (rule nth_equalityI) (simp_all add: points_from_nth)

subsection \<open>The historical window (C2)\<close>

text \<open>
  Claim C2. For every list of prices, the points of the historical line are the values
  of \<^verbatim>\<open>prices[max(0, len(prices) - 90) : len(prices)]\<close> in their order, at the horizontal
  indices 0, 1, 2 and so on; the chart given to \<^verbatim>\<open>p.Save\<close> carries exactly these points as
  its first line. With at most 90 prices the window is the whole list; with more than 90
  it has 90 elements, the last 90 of the list.
\<close>

theorem plotData_historical_window:
  "stockPoints_of prices = Some (points_from 0 (spec_historicalWindow prices))
   \<and> map (\<lambda>p. XYs (Plotters p ! 0)) (saved_plots (fst (plotData w prices predictions symbol)))
       = [points_from 0 (spec_historicalWindow prices)]
   \<and> map Y (points_from 0 (spec_historicalWindow prices)) = spec_historicalWindow prices
   \<and> map X (points_from 0 (spec_historicalWindow prices))
       = map real [0..<length (spec_historicalWindow prices)]
   \<and> (length prices \<le> 90 \<longrightarrow> stockPoints_of prices = Some (points_from 0 prices))
   \<and> (90 < length prices \<longrightarrow>
        stockPoints_of prices = Some (points_from 0 (drop (length prices - 90) prices))
        \<and> length (drop (length prices - 90) prices) = 90)"
  by (simp add: stockPoints_of_eq spec_historicalWindow_drop plotData_eq assemble_def Let_def
      plot_New_def map_Y_points_from map_X_points_from)

theorem plotData_historical_window_witness:
  "length [100, 101, 102, 103, 104 :: real] \<le> 90
   \<and> stockPoints_of [100, 101, 102, 103, 104]
       = Some [\<lparr>X = 0, Y = 100\<rparr>, \<lparr>X = 1, Y = 101\<rparr>, \<lparr>X = 2, Y = 102\<rparr>,
               \<lparr>X = 3, Y = 103\<rparr>, \<lparr>X = 4, Y = 104\<rparr>]
   \<and> 90 < length (map real [0..<100])
   \<and> stockPoints_of (map real [0..<100]) = Some (points_from 0 (map real [10..<100]))"
proof -
  have short: "length [100, 101, 102, 103, 104 :: real] \<le> 90"
    by simp
  have long: "90 < length (map real [0..<100])"
    by simp
  have tail: "drop (length (map real [0..<100]) - 90) (map real [0..<100]) = map real [10..<100]"
    by (simp add: drop_map del: upt_rec_numeral)
  have "stockPoints_of [100, 101, 102, 103, 104] = Some (points_from 0 [100, 101, 102, 103, 104])"
    using plotData_historical_window [of "[100, 101, 102, 103, 104]" world_ok "[]" "''AAPL''"] short
    by blast
  moreover have "stockPoints_of (map real [0..<100]) = Some (points_from 0 (map real [10..<100]))"
    using plotData_historical_window [of "map real [0..<100]" world_ok "[]" "''AAPL''"] long
    unfolding tail by blast
  ultimately show ?thesis
    using short long by (simp add: points_from_def del: upt_rec_numeral)
qed

subsection \<open>The placement of the forecast (C3)\<close>

text \<open>
  Claim C3. For every list of prices and every forecast, forecast point \<open>i\<close> lies at the
  horizontal index \<open>length window + i\<close>: the indices of the historical line followed by
  those of the forecast line are 0, 1, 2 and so on without a gap or a repetition, and the
  values of the forecast line are the forecast in its order. For the prices
  100, 101, 102, 103, 104 and the forecast 105, 106 the historical points are
  (0,100) to (4,104) and the forecast points are (5,105) and (6,106).
\<close>

theorem plotData_forecast_placement:
  "predPoints_of prices predictions
     = Some (points_from (length (spec_historicalWindow prices)) predictions)
   \<and> map (\<lambda>p. map XYs (Plotters p)) (saved_plots (fst (plotData w prices predictions symbol)))
       = [[points_from 0 (spec_historicalWindow prices),
           points_from (length (spec_historicalWindow prices)) predictions]]
   \<and> map X (points_from (length (spec_historicalWindow prices)) predictions)
       = map (\<lambda>i. real (length (spec_historicalWindow prices) + i)) [0..<length predictions]
   \<and> map Y (points_from (length (spec_historicalWindow prices)) predictions) = predictions
   \<and> map X (points_from 0 (spec_historicalWindow prices)
             @ points_from (length (spec_historicalWindow prices)) predictions)
       = map real [0..<length (spec_historicalWindow prices) + length predictions]
   \<and> stockPoints_of [100, 101, 102, 103, 104]
       = Some [\<lparr>X = 0, Y = 100\<rparr>, \<lparr>X = 1, Y = 101\<rparr>, \<lparr>X = 2, Y = 102\<rparr>,
               \<lparr>X = 3, Y = 103\<rparr>, \<lparr>X = 4, Y = 104\<rparr>]
   \<and> predPoints_of [100, 101, 102, 103, 104] [105, 106]
       = Some [\<lparr>X = 5, Y = 105\<rparr>, \<lparr>X = 6, Y = 106\<rparr>]"
proof -
  have len: "length (spec_historicalWindow prices) = min 90 (length prices)"
    by (simp add: spec_historicalWindow_drop)
  have a: "predPoints_of prices predictions
     = Some (points_from (length (spec_historicalWindow prices)) predictions)"
    by (simp add: predPoints_of_eq len)
  have b: "map (\<lambda>p. map XYs (Plotters p)) (saved_plots (fst (plotData w prices predictions symbol)))
       = [[points_from 0 (spec_historicalWindow prices),
           points_from (length (spec_historicalWindow prices)) predictions]]"
    by (simp add: plotData_eq assemble_def Let_def plot_New_def len spec_historicalWindow_drop min_def)
  have c: "map X (points_from (length (spec_historicalWindow prices)) predictions)
       = map (\<lambda>i. real (length (spec_historicalWindow prices) + i)) [0..<length predictions]"
    by (rule nth_equalityI) (simp_all add: points_from_nth)
  have d: "map X (points_from 0 (spec_historicalWindow prices)
             @ points_from (length (spec_historicalWindow prices)) predictions)
       = map real [0..<length (spec_historicalWindow prices) + length predictions]"
    by (simp add: map_X_points_from
        upt_add_eq_append [of 0 "length (spec_historicalWindow prices)" "length predictions"])
  have e: "stockPoints_of [100, 101, 102, 103, 104]
       = Some [\<lparr>X = 0, Y = 100\<rparr>, \<lparr>X = 1, Y = 101\<rparr>, \<lparr>X = 2, Y = 102\<rparr>,
               \<lparr>X = 3, Y = 103\<rparr>, \<lparr>X = 4, Y = 104\<rparr>]"
    by (simp add: stockPoints_of_eq points_from_def)
  have f: "predPoints_of [100, 101, 102, 103, 104] [105, 106]
       = Some [\<lparr>X = 5, Y = 105\<rparr>, \<lparr>X = 6, Y = 106\<rparr>]"
    by (simp add: predPoints_of_eq points_from_def)
  show ?thesis
    using a b c d e f map_Y_points_from by blast
qed

lemma length_points_from: "length (points_from k ys) = length ys"
  by (simp add: points_from_def)

lemma points_from_eq_Nil: "points_from k ys = [] \<longleftrightarrow> ys = []"
  using length_points_from [of k ys] by (metis length_0_conv)

subsection \<open>An empty forecast (C7)\<close>

text \<open>
  Claim C7. For every non-empty list of prices and the empty forecast, \<^verbatim>\<open>plotData\<close> builds
  the chart and hands it to \<^verbatim>\<open>p.Save\<close>: the historical line has the points of the window,
  which is not empty, and the prediction line has no points. \<^verbatim>\<open>plotData\<close> has no failure
  of its own; it returns what \<^verbatim>\<open>p.Save\<close> returns, so it returns success whenever the
  image is written.
\<close>

theorem plotData_empty_forecast:
  "prices \<noteq> [] \<Longrightarrow>
     (let p = assemble symbol (points_from 0 (spec_historicalWindow prices)) [] in
      plotData w prices [] symbol
        = ([Save p (8 * Inch) (4 * Inch) ''plot.png''], Returns (savePlot w p))
      \<and> map XYs (Plotters p) = [points_from 0 (spec_historicalWindow prices), []]
      \<and> points_from 0 (spec_historicalWindow prices) \<noteq> []
      \<and> (savePlot w p = None \<longrightarrow> snd (plotData w prices [] symbol) = Returns None))"
proof -
  assume ne: "prices \<noteq> []"
  have "0 < length prices"
    using ne by simp
  then have "length prices - 90 < length prices"
    by linarith
  then have "spec_historicalWindow prices \<noteq> []"
    by (simp add: spec_historicalWindow_drop)
  then have "points_from 0 (spec_historicalWindow prices) \<noteq> []"
    by (simp add: points_from_eq_Nil)
  moreover have "points_from (min 90 (length prices)) [] = []"
    by (simp add: points_from_eq_Nil)
  ultimately show ?thesis
    by (simp add: plotData_eq Let_def spec_historicalWindow_drop assemble_def plot_New_def)
qed

theorem plotData_empty_forecast_witness:
  "[100, 101, 102, 103, 104 :: real] \<noteq> []
   \<and> savePlot world_ok (assemble ''AAPL'' (points_from 0 (spec_historicalWindow [100, 101, 102, 103, 104])) []) = None
   \<and> snd (plotData world_ok [100, 101, 102, 103, 104] [] ''AAPL'') = Returns None
   \<and> map (\<lambda>p. map XYs (Plotters p)) (saved_plots (fst (plotData world_ok [100, 101, 102, 103, 104] [] ''AAPL'')))
       = [[[\<lparr>X = 0, Y = 100\<rparr>, \<lparr>X = 1, Y = 101\<rparr>, \<lparr>X = 2, Y = 102\<rparr>,
            \<lparr>X = 3, Y = 103\<rparr>, \<lparr>X = 4, Y = 104\<rparr>], []]]"
proof -
  have ne: "[100, 101, 102, 103, 104 :: real] \<noteq> []"
    by simp
  have ok: "savePlot world_ok p = None" for p
    by (simp add: world_ok_def)
  have win: "points_from 0 (spec_historicalWindow [100, 101, 102, 103, 104])
      = [\<lparr>X = 0, Y = 100\<rparr>, \<lparr>X = 1, Y = 101\<rparr>, \<lparr>X = 2, Y = 102\<rparr>,
         \<lparr>X = 3, Y = 103\<rparr>, \<lparr>X = 4, Y = 104\<rparr>]"
    by (simp add: spec_historicalWindow_def points_from_def)
  show ?thesis
    using plotData_empty_forecast [OF ne, of "''AAPL''" world_ok] ok
    by (simp add: Let_def win assemble_def plot_New_def)
qed

subsection \<open>The contents of the chart (C9)\<close>

text \<open>
  Claim C9. The chart that \<^verbatim>\<open>plotData\<close> hands to \<^verbatim>\<open>p.Save\<close> has exactly two lines: the
  historical one in red, under the legend entry \<^verbatim>\<open>Stock\<close>, and the forecast one in green,
  under the legend entry \<^verbatim>\<open>Prediction\<close>; the two colours differ. The horizontal axis is
  labelled \<^verbatim>\<open>Days\<close>, the vertical axis \<^verbatim>\<open>Price\<close>, and the title ends with the symbol.
  The chart is saved 8 inches wide and 4 inches high into \<^verbatim>\<open>plot.png\<close>. This holds for
  every call, so for every one that succeeds.
\<close>

theorem plotData_chart:
  "(let stock = \<lparr>XYs = points_from 0 (spec_historicalWindow prices), Color = RGBA 255 0 0 255\<rparr>;
        pred = \<lparr>XYs = points_from (length (spec_historicalWindow prices)) predictions,
                Color = RGBA 0 255 0 255\<rparr>;
        p = \<lparr>Title = ''Stock Prices and Predictions for '' @ symbol,
             XLabel = ''Days'', YLabel = ''Price'',
             Plotters = [stock, pred],
             Legend = [(''Stock'', stock), (''Prediction'', pred)]\<rparr>
    in plotData w prices predictions symbol
         = ([Save p (8 * Inch) (4 * Inch) ''plot.png''], Returns (savePlot w p))
       \<and> Color stock \<noteq> Color pred
       \<and> suffix symbol (Title p)
       \<and> suffix ''.png'' ''plot.png'')"
proof -
  have len: "length prices - (length prices - 90) = min 90 (length prices)"
    by simp
  show ?thesis
    by (simp add: plotData_eq Let_def spec_historicalWindow_drop assemble_def plot_New_def len
        suffix_def)
qed

subsection \<open>The paths of callPythonARIMA\<close>

lemma callPythonARIMA_not_staged:
  "tempFile w = Inl err \<Longrightarrow> callPythonARIMA L w prices = ([], Returns (Inl err))"
  by (simp add: callPythonARIMA_def json_Marshal_def)

lemma callPythonARIMA_write_fails:
  "tempFile w = Inr name \<Longrightarrow> writeExe w = Some err \<Longrightarrow>
   callPythonARIMA L w prices = ([TempFile name, Remove name], Returns (Inl err))"
  by (simp add: callPythonARIMA_def json_Marshal_def after_def deferred_def)

lemma callPythonARIMA_run:
  "json_Marshal L prices = Inr jsonData \<Longrightarrow> tempFile w = Inr name \<Longrightarrow> writeExe w = None \<Longrightarrow>
   callPythonARIMA L w prices =
     (case runExe w name jsonData of
        StartFails msg \<Rightarrow>
          ([TempFile name, Write name, Close_file name,
            Println [S ''Error calling ARIMA prediction:'', E (OSError msg), S ''Stderr:'', S []],
            Remove name],
           Returns (Inl (OSError msg)))
      | NeverExits \<Rightarrow> ([TempFile name, Write name, Close_file name, Spawn name jsonData], Blocks)
      | Exits status out stderr \<Rightarrow>
          if status \<noteq> 0 then
            ([TempFile name, Write name, Close_file name, Spawn name jsonData,
              Println [S ''Error calling ARIMA prediction:'', E (ExitError status []),
                       S ''Stderr:'', S stderr],
              Remove name],
             Returns (Inl (ExitError status [])))
          else
            (case Unmarshal L out of
               Inl err \<Rightarrow>
                 ([TempFile name, Write name, Close_file name, Spawn name jsonData, Remove name],
                  Returns (Inl (JSONError err)))
             | Inr predictions \<Rightarrow>
                 ([TempFile name, Write name, Close_file name, Spawn name jsonData, Remove name],
                  Returns (Inr predictions))))"
  by (simp add: callPythonARIMA_def after_def deferred_def split: proc_outcome.splits sum.splits)

lemma json_Marshal_Inr:
  \<open>json_Marshal L prices = Inr (''{"prices":['' @ join_comma (map (FormatFloat L) prices) @ '']}'')\<close>
  by (simp add: json_Marshal_def)

subsection \<open>The sample runs\<close>

lemma world_ok_simps:
  "tempFile world_ok = Inr ''/tmp/arima_predict_1.exe''"
  "writeExe world_ok = None"
  "runExe world_ok name stdin = Exits 0 ''[105,106]'' []"
  "savePlot world_ok p = None"
  "fetched world_ok symbol months = Inr sample_data"
  by (simp_all add: world_ok_def)

lemma world_exit1_simps:
  "tempFile world_exit1 = Inr ''/tmp/arima_predict_1.exe''"
  "writeExe world_exit1 = None"
  "runExe world_exit1 name stdin = Exits 1 [] ''model failed''"
  by (simp_all add: world_exit1_def world_ok_def)

lemma world_not_json_simps:
  "tempFile world_not_json = Inr ''/tmp/arima_predict_1.exe''"
  "writeExe world_not_json = None"
  "runExe world_not_json name stdin = Exits 0 ''not json'' []"
  by (simp_all add: world_not_json_def world_ok_def)

lemma world_other_simps:
  "tempFile world_other = Inr ''/tmp/arima_predict_2.exe''"
  "writeExe world_other = None"
  "runExe world_other name stdin = Exits 0 ''[]'' []"
  "savePlot world_other p = Some (OSError ''open plot.png: permission denied'')"
  by (simp_all add: world_other_def)

lemma sample_lib_simps:
  "Unmarshal sample_lib ''[105,106]'' = Inr [105, 106]"
  "Unmarshal sample_lib ''[]'' = Inr []"
  "Unmarshal sample_lib ''not json''
     = Inl (SyntaxError ''invalid character 'o' in literal null (expecting 'u')'' 2)"
  by (simp_all add: sample_lib_def)

lemma sample_payload:
  \<open>json_Marshal sample_lib [100, 101, 102, 103, 104] = Inr ''{"prices":[100,101,102,103,104]}''\<close>
  by (simp add: json_Marshal_def sample_lib_def itoa.simps)

lemma sample_not_json:
  \<open>callPythonARIMA sample_lib world_not_json [100, 101, 102, 103, 104] =
     ([TempFile ''/tmp/arima_predict_1.exe'', Write ''/tmp/arima_predict_1.exe'',
       Close_file ''/tmp/arima_predict_1.exe'',
       Spawn ''/tmp/arima_predict_1.exe'' ''{"prices":[100,101,102,103,104]}'',
       Remove ''/tmp/arima_predict_1.exe''],
      Returns (Inl (JSONError
        (SyntaxError ''invalid character 'o' in literal null (expecting 'u')'' 2))))\<close>
  unfolding callPythonARIMA_run [OF sample_payload world_not_json_simps(1) world_not_json_simps(2)]
  by (simp add: world_not_json_simps sample_lib_simps)

lemma sample_exit1:
  \<open>callPythonARIMA sample_lib world_exit1 [100, 101, 102, 103, 104] =
     ([TempFile ''/tmp/arima_predict_1.exe'', Write ''/tmp/arima_predict_1.exe'',
       Close_file ''/tmp/arima_predict_1.exe'',
       Spawn ''/tmp/arima_predict_1.exe'' ''{"prices":[100,101,102,103,104]}'',
       Println [S ''Error calling ARIMA prediction:'', E (ExitError 1 []), S ''Stderr:'',
                S ''model failed''],
       Remove ''/tmp/arima_predict_1.exe''],
      Returns (Inl (ExitError 1 [])))\<close>
  unfolding callPythonARIMA_run [OF sample_payload world_exit1_simps(1) world_exit1_simps(2)]
  by (simp add: world_exit1_simps)

lemma sample_ok:
  \<open>callPythonARIMA sample_lib world_ok [100, 101, 102, 103, 104] =
     ([TempFile ''/tmp/arima_predict_1.exe'', Write ''/tmp/arima_predict_1.exe'',
       Close_file ''/tmp/arima_predict_1.exe'',
       Spawn ''/tmp/arima_predict_1.exe'' ''{"prices":[100,101,102,103,104]}'',
       Remove ''/tmp/arima_predict_1.exe''],
      Returns (Inr [105, 106]))\<close>
  unfolding callPythonARIMA_run [OF sample_payload world_ok_simps(1) world_ok_simps(2)]
  by (simp add: world_ok_simps sample_lib_simps)

lemma sample_other:
  \<open>callPythonARIMA sample_lib world_other [100, 101, 102, 103, 104] =
     ([TempFile ''/tmp/arima_predict_2.exe'', Write ''/tmp/arima_predict_2.exe'',
       Close_file ''/tmp/arima_predict_2.exe'',
       Spawn ''/tmp/arima_predict_2.exe'' ''{"prices":[100,101,102,103,104]}'',
       Remove ''/tmp/arima_predict_2.exe''],
      Returns (Inr []))\<close>
  unfolding callPythonARIMA_run [OF sample_payload world_other_simps(1) world_other_simps(2)]
  by (simp add: world_other_simps sample_lib_simps)

subsection \<open>Release of the temporary executable (C4)\<close>

text \<open>
  Claim C4. Whenever the temporary file was created and \<^verbatim>\<open>callPythonARIMA\<close> comes to an
  end (normal return, failed write, failed start, non-zero exit, output that does not
  decode), \<^verbatim>\<open>os.Remove\<close> is called on that file exactly once, as the last effect of the
  call, and the file was created exactly once. In the caller the removal therefore comes
  before \<^verbatim>\<open>p.Save\<close>: no chart is saved before it, and it is not repeated afterwards.
\<close>

theorem artifact_released_once:
  assumes "tempFile w = Inr name" and "snd (callPythonARIMA L w prices) \<noteq> Blocks"
  shows "filter is_TempFile (fst (callPythonARIMA L w prices)) = [TempFile name]
       \<and> filter is_Remove (fst (callPythonARIMA L w prices)) = [Remove name]
       \<and> last (fst (callPythonARIMA L w prices)) = Remove name
       \<and> (2 \<le> length prices \<longrightarrow>
            filter is_Remove (fst (predictAndPlot L w symbol prices)) = [Remove name]
            \<and> \<not> list_ex is_Save (takeWhile (\<lambda>e. e \<noteq> Remove name) (fst (predictAndPlot L w symbol prices))))"
proof (cases "writeExe w")
  case (Some err)
  show ?thesis
    using assms(1) Some
    by (simp add: callPythonARIMA_write_fails predictAndPlot_def)
next
  case None
  obtain jsonData where m: "json_Marshal L prices = Inr jsonData"
    by (simp add: json_Marshal_def)
  note run = callPythonARIMA_run [OF m assms(1) None]
  show ?thesis
  proof (cases "runExe w name jsonData")
    case (StartFails msg)
    then show ?thesis
      using run by (simp add: predictAndPlot_def)
  next
    case NeverExits
    then show ?thesis
      using run assms(2) by simp
  next
    case (Exits status out stderr)
    show ?thesis
    proof (cases "status = 0")
      case False
      then show ?thesis
        using run Exits by (simp add: predictAndPlot_def)
    next
      case True
      show ?thesis
      proof (cases "Unmarshal L out")
        case (Inl err)
        then show ?thesis
          using run Exits True by (simp add: predictAndPlot_def)
      next
        case (Inr predictions)
        then show ?thesis
          using run Exits True
          by (simp add: predictAndPlot_def after_def plotData_eq Let_def split: option.splits)
      qed
    qed
  qed
qed

text \<open>Witness for C4: the run whose output does not decode, and the run that plots.\<close>

theorem artifact_released_once_witness:
  "tempFile world_not_json = Inr ''/tmp/arima_predict_1.exe''
   \<and> snd (callPythonARIMA sample_lib world_not_json [100, 101, 102, 103, 104]) \<noteq> Blocks
   \<and> tempFile world_ok = Inr ''/tmp/arima_predict_1.exe''
   \<and> snd (callPythonARIMA sample_lib world_ok [100, 101, 102, 103, 104]) \<noteq> Blocks
   \<and> (2::nat) \<le> length [100, 101, 102, 103, 104 :: real]
   \<and> filter is_Remove (fst (callPythonARIMA sample_lib world_not_json [100, 101, 102, 103, 104]))
       = [Remove ''/tmp/arima_predict_1.exe'']
   \<and> filter is_Remove (fst (predictAndPlot sample_lib world_not_json ''AAPL'' [100, 101, 102, 103, 104]))
       = [Remove ''/tmp/arima_predict_1.exe'']
   \<and> filter is_Remove (fst (predictAndPlot sample_lib world_ok ''AAPL'' [100, 101, 102, 103, 104]))
       = [Remove ''/tmp/arima_predict_1.exe'']
   \<and> \<not> list_ex is_Save (takeWhile (\<lambda>e. e \<noteq> Remove ''/tmp/arima_predict_1.exe'')
         (fst (predictAndPlot sample_lib world_ok ''AAPL'' [100, 101, 102, 103, 104])))
   \<and> list_ex is_Save (fst (predictAndPlot sample_lib world_ok ''AAPL'' [100, 101, 102, 103, 104]))"
proof -
  have staged: "tempFile world_not_json = Inr ''/tmp/arima_predict_1.exe''"
    by (rule world_not_json_simps)
  have returns: "snd (callPythonARIMA sample_lib world_not_json [100, 101, 102, 103, 104]) \<noteq> Blocks"
    by (simp add: sample_not_json)
  have staged_ok: "tempFile world_ok = Inr ''/tmp/arima_predict_1.exe''"
    by (rule world_ok_simps)
  have returns_ok: "snd (callPythonARIMA sample_lib world_ok [100, 101, 102, 103, 104]) \<noteq> Blocks"
    by (simp add: sample_ok)
  have two: "(2::nat) \<le> length [100, 101, 102, 103, 104 :: real]"
    by simp
  have plotted: "list_ex is_Save (fst (predictAndPlot sample_lib world_ok ''AAPL'' [100, 101, 102, 103, 104]))"
    by (simp add: predictAndPlot_def sample_ok after_def plotData_eq Let_def world_ok_simps)
  show ?thesis
    using artifact_released_once [OF staged returns, of "''AAPL''"]
      artifact_released_once [OF staged_ok returns_ok, of "''AAPL''"]
      staged returns staged_ok returns_ok two plotted
    by blast
qed

subsection \<open>Fewer than two prices (C1)\<close>

text \<open>
  Claim C1. With fewer than 2 prices the guarded call of the predictor (lines 183 to 192)
  does nothing but log \<^verbatim>\<open>Not enough data points for predictions.\<close> and return:
  \<^verbatim>\<open>callPythonARIMA\<close> is not called, so no temporary file is created and no child process
  is spawned. In the callback as a whole, a fetched series of fewer than 2 points leads
  to no temporary file, no process and no chart; the last log line reports the missing
  data (an empty series is already reported by the check before).
\<close>

theorem too_few_prices_no_process:
  "(length prices < 2 \<longrightarrow>
      predictAndPlot L w symbol prices
        = ([Println [S ''Not enough data points for predictions.'']], Returns ()))
   \<and> (fetched w symbol 12 = Inr data \<and> length data < 2 \<longrightarrow>
        \<not> list_ex is_TempFile (fst (fetchTapped L w symbol))
        \<and> \<not> list_ex is_Spawn (fst (fetchTapped L w symbol))
        \<and> \<not> list_ex is_Save (fst (fetchTapped L w symbol))
        \<and> last (fst (fetchTapped L w symbol))
            = (if data = [] then Println [S ''No data returned for symbol:'', S symbol]
               else Println [S ''Not enough data points for predictions.''])
        \<and> snd (fetchTapped L w symbol) = Returns ())"
  by (simp add: predictAndPlot_def fetchTapped_def after_def Let_def)

text \<open>Witness for C1: a single price, and a fetched series of one point.\<close>

theorem too_few_prices_no_process_witness:
  "length [100 :: real] < 2
   \<and> predictAndPlot sample_lib world_ok ''AAPL'' [100]
        = ([Println [S ''Not enough data points for predictions.'']], Returns ())
   \<and> fetched world_one_point ''AAPL'' 12 = Inr (take 1 sample_data)
   \<and> length (take 1 sample_data) < 2
   \<and> \<not> list_ex is_Spawn (fst (fetchTapped sample_lib world_one_point ''AAPL''))
   \<and> last (fst (fetchTapped sample_lib world_one_point ''AAPL''))
        = Println [S ''Not enough data points for predictions.'']"
proof -
  have short: "length [100 :: real] < 2"
    by simp
  have got: "fetched world_one_point ''AAPL'' 12 = Inr (take 1 sample_data)"
    by (simp add: world_one_point_def)
  have one: "length (take 1 sample_data) < 2" "take 1 sample_data \<noteq> []"
    by (simp_all add: sample_data_def)
  show ?thesis
    using too_few_prices_no_process [where prices = "[100]" and L = sample_lib and w = world_ok
        and symbol = "''AAPL''" and data = "[]"]
      too_few_prices_no_process [where prices = "[]" and L = sample_lib and w = world_one_point
        and symbol = "''AAPL''" and data = "take 1 sample_data"]
      short got one
    by simp
qed

subsection \<open>A non-zero exit status (C5)\<close>

text \<open>
  Claim C5 as stated fails: when the predictor exits with status 1 and writes
  \<^verbatim>\<open>model failed\<close> to standard error, the error that \<^verbatim>\<open>callPythonARIMA\<close> returns is the
  exit error of \<^verbatim>\<open>cmd.Run\<close>, whose text is \<^verbatim>\<open>exit status 1\<close>; the text of standard
  error does not appear in it.
\<close>

theorem nonzero_exit_stderr_not_in_error_counterexample:
  \<open>runExe world_exit1 ''/tmp/arima_predict_1.exe'' ''{"prices":[100,101,102,103,104]}''
     = Exits 1 [] ''model failed''
   \<and> snd (callPythonARIMA sample_lib world_exit1 [100, 101, 102, 103, 104])
       = Returns (Inl (ExitError 1 []))
   \<and> Error (ExitError 1 []) = ''exit status 1''
   \<and> \<not> sublist ''model failed'' (Error (ExitError 1 []))\<close>
  by (simp add: sample_exit1 world_exit1_simps itoa.simps sublist_code)

text \<open>
  Claim C5, amended. Whenever the predictor process ends with a non-zero exit status,
  \<^verbatim>\<open>callPythonARIMA\<close> returns the exit error of \<^verbatim>\<open>cmd.Run\<close> and no predictions; the
  captured standard-error text is written to the log next to that error, and the
  temporary file is removed. The caller logs the error and returns: \<^verbatim>\<open>plotData\<close> is not
  called, so no chart is saved and the image is not updated.
\<close>

theorem nonzero_exit_logged_not_plotted:
  assumes "json_Marshal L prices = Inr jsonData"
    and "tempFile w = Inr name"
    and "writeExe w = None"
    and "runExe w name jsonData = Exits status out stderr"
    and "status \<noteq> 0"
  shows "callPythonARIMA L w prices =
           ([TempFile name, Write name, Close_file name, Spawn name jsonData,
             Println [S ''Error calling ARIMA prediction:'', E (ExitError status []),
                      S ''Stderr:'', S stderr],
             Remove name],
            Returns (Inl (ExitError status [])))
       \<and> (2 \<le> length prices \<longrightarrow>
            predictAndPlot L w symbol prices =
              (fst (callPythonARIMA L w prices)
                 @ [Println [S ''Error calling ARIMA prediction:'', E (ExitError status [])]],
               Returns ())
            \<and> \<not> list_ex is_Save (fst (predictAndPlot L w symbol prices))
            \<and> \<not> list_ex is_SetContent (fst (predictAndPlot L w symbol prices)))"
  using assms(4,5)
  by (simp add: callPythonARIMA_run [OF assms(1,2,3)] predictAndPlot_def)

text \<open>Witness for the amended C5: exit status 1 with \<^verbatim>\<open>model failed\<close> on standard error.\<close>

theorem nonzero_exit_logged_not_plotted_witness:
  \<open>json_Marshal sample_lib [100, 101, 102, 103, 104] = Inr ''{"prices":[100,101,102,103,104]}''
   \<and> tempFile world_exit1 = Inr ''/tmp/arima_predict_1.exe''
   \<and> writeExe world_exit1 = None
   \<and> runExe world_exit1 ''/tmp/arima_predict_1.exe'' ''{"prices":[100,101,102,103,104]}''
       = Exits 1 [] ''model failed''
   \<and> (1::nat) \<noteq> 0
   \<and> (2::nat) \<le> length [100, 101, 102, 103, 104 :: real]
   \<and> Println [S ''Error calling ARIMA prediction:'', E (ExitError 1 []), S ''Stderr:'',
               S ''model failed'']
       \<in> set (fst (callPythonARIMA sample_lib world_exit1 [100, 101, 102, 103, 104]))
   \<and> \<not> list_ex is_Save (fst (predictAndPlot sample_lib world_exit1 ''AAPL'' [100, 101, 102, 103, 104]))\<close>
proof -
  have run: \<open>runExe world_exit1 ''/tmp/arima_predict_1.exe'' ''{"prices":[100,101,102,103,104]}''
       = Exits 1 [] ''model failed''\<close>
    by (rule world_exit1_simps)
  have nz: "(1::nat) \<noteq> 0"
    by simp
  have two: "(2::nat) \<le> length [100, 101, 102, 103, 104 :: real]"
    by simp
  note inst = nonzero_exit_logged_not_plotted
    [OF sample_payload world_exit1_simps(1) world_exit1_simps(2) run nz, of "''AAPL''"]
  have "Println [S ''Error calling ARIMA prediction:'', E (ExitError 1 []), S ''Stderr:'',
               S ''model failed'']
       \<in> set (fst (callPythonARIMA sample_lib world_exit1 [100, 101, 102, 103, 104]))"
    using inst by simp
  moreover have "\<not> list_ex is_Save
      (fst (predictAndPlot sample_lib world_exit1 ''AAPL'' [100, 101, 102, 103, 104]))"
    using inst two by blast
  ultimately show ?thesis
    using sample_payload world_exit1_simps(1) world_exit1_simps(2) run nz two by blast
qed

subsection \<open>Output that does not decode (C6)\<close>

text \<open>
  Claim C6 as stated fails: when the predictor exits with status 0 and writes
  \<^verbatim>\<open>not json\<close>, the error returned is the syntax error of the decoder; the raw output
  does not appear in its text, and nothing is logged by \<^verbatim>\<open>callPythonARIMA\<close>.
\<close>

theorem undecodable_output_raw_not_in_error_counterexample:
  \<open>runExe world_not_json ''/tmp/arima_predict_1.exe'' ''{"prices":[100,101,102,103,104]}''
     = Exits 0 ''not json'' []
   \<and> snd (callPythonARIMA sample_lib world_not_json [100, 101, 102, 103, 104])
       = Returns (Inl (JSONError
           (SyntaxError ''invalid character 'o' in literal null (expecting 'u')'' 2)))
   \<and> \<not> sublist ''not json''
         (Error (JSONError
           (SyntaxError ''invalid character 'o' in literal null (expecting 'u')'' 2)))
   \<and> \<not> list_ex is_Println (fst (callPythonARIMA sample_lib world_not_json [100, 101, 102, 103, 104]))\<close>
  by (simp add: sample_not_json world_not_json_simps sublist_code)

text \<open>
  Claim C6, amended. Whenever the predictor process exits with status 0 and its standard
  output does not decode as an array of numbers, \<^verbatim>\<open>callPythonARIMA\<close> returns the error of
  \<^verbatim>\<open>json.Unmarshal\<close> unchanged (the decode diagnostic) and no predictions; it logs nothing
  and attaches nothing, and the temporary file is removed. The caller logs that error.
\<close>

theorem undecodable_output_decoder_error:
  assumes "json_Marshal L prices = Inr jsonData"
    and "tempFile w = Inr name"
    and "writeExe w = None"
    and "runExe w name jsonData = Exits 0 out stderr"
    and "Unmarshal L out = Inl err"
  shows "callPythonARIMA L w prices =
           ([TempFile name, Write name, Close_file name, Spawn name jsonData, Remove name],
            Returns (Inl (JSONError err)))
       \<and> (2 \<le> length prices \<longrightarrow>
            predictAndPlot L w symbol prices =
              ([TempFile name, Write name, Close_file name, Spawn name jsonData, Remove name,
                Println [S ''Error calling ARIMA prediction:'', E (JSONError err)]],
               Returns ()))"
  using assms(4,5)
  by (simp add: callPythonARIMA_run [OF assms(1,2,3)] predictAndPlot_def)

text \<open>Witness for the amended C6: the output \<^verbatim>\<open>not json\<close>.\<close>

theorem undecodable_output_decoder_error_witness:
  \<open>json_Marshal sample_lib [100, 101, 102, 103, 104] = Inr ''{"prices":[100,101,102,103,104]}''
   \<and> tempFile world_not_json = Inr ''/tmp/arima_predict_1.exe''
   \<and> writeExe world_not_json = None
   \<and> runExe world_not_json ''/tmp/arima_predict_1.exe'' ''{"prices":[100,101,102,103,104]}''
       = Exits 0 ''not json'' []
   \<and> Unmarshal sample_lib ''not json''
       = Inl (SyntaxError ''invalid character 'o' in literal null (expecting 'u')'' 2)
   \<and> (2::nat) \<le> length [100, 101, 102, 103, 104 :: real]
   \<and> snd (callPythonARIMA sample_lib world_not_json [100, 101, 102, 103, 104])
       = Returns (Inl (JSONError
           (SyntaxError ''invalid character 'o' in literal null (expecting 'u')'' 2)))
   \<and> snd (predictAndPlot sample_lib world_not_json ''AAPL'' [100, 101, 102, 103, 104])
       = Returns ()\<close>
proof -
  have run: \<open>runExe world_not_json ''/tmp/arima_predict_1.exe''
      ''{"prices":[100,101,102,103,104]}'' = Exits 0 ''not json'' []\<close>
    by (rule world_not_json_simps)
  have two: "(2::nat) \<le> length [100, 101, 102, 103, 104 :: real]"
    by simp
  note inst = undecodable_output_decoder_error
    [OF sample_payload world_not_json_simps(1) world_not_json_simps(2) run sample_lib_simps(3),
     of "''AAPL''"]
  have "snd (callPythonARIMA sample_lib world_not_json [100, 101, 102, 103, 104])
       = Returns (Inl (JSONError
           (SyntaxError ''invalid character 'o' in literal null (expecting 'u')'' 2)))"
    using inst by simp
  moreover have "snd (predictAndPlot sample_lib world_not_json ''AAPL'' [100, 101, 102, 103, 104])
       = Returns ()"
    using inst two by simp
  ultimately show ?thesis
    using sample_payload world_not_json_simps(1) world_not_json_simps(2) run sample_lib_simps(3) two
    by blast
qed

subsection \<open>The request on standard input (C8, C10)\<close>

lemma spawn_inputs_callPythonARIMA:
  \<open>set (spawn_inputs (fst (callPythonARIMA L w prices)))
     \<subseteq> {''{"prices":['' @ join_comma (map (FormatFloat L) prices) @ '']}''}\<close>
proof (cases "tempFile w")
  case (Inl err)
  then show ?thesis
    by (simp add: callPythonARIMA_not_staged)
next
  case (Inr name)
  show ?thesis
  proof (cases "writeExe w")
    case (Some err)
    then show ?thesis
      using Inr by (simp add: callPythonARIMA_write_fails)
  next
    case None
    show ?thesis
      unfolding callPythonARIMA_run [OF json_Marshal_Inr Inr None]
      by (simp split: proc_outcome.splits sum.splits)
  qed
qed

text \<open>
  Claim C8. Whenever the temporary executable is staged and the child process starts,
  exactly one child is spawned and its whole standard input is the one JSON object with
  the key \<^verbatim>\<open>prices\<close> and the array of the request's values in their order, followed by end
  of input. The result of the call is computed from what the process did on that complete
  input: the output is decoded only after \<^verbatim>\<open>cmd.Run\<close> has returned.
\<close>

theorem request_payload_on_stdin:
  assumes "tempFile w = Inr name"
    and "writeExe w = None"
    and \<open>started (runExe w name (''{"prices":['' @ join_comma (map (FormatFloat L) prices) @ '']}''))\<close>
  shows \<open>filter is_Spawn (fst (callPythonARIMA L w prices))
           = [Spawn name (''{"prices":['' @ join_comma (map (FormatFloat L) prices) @ '']}'')]
       \<and> spawn_inputs (fst (callPythonARIMA L w prices))
           = [''{"prices":['' @ join_comma (map (FormatFloat L) prices) @ '']}'']
       \<and> snd (callPythonARIMA L w prices)
           = (case runExe w name (''{"prices":['' @ join_comma (map (FormatFloat L) prices) @ '']}'') of
                StartFails msg \<Rightarrow> Returns (Inl (OSError msg))
              | NeverExits \<Rightarrow> Blocks
              | Exits status out stderr \<Rightarrow>
                  if status \<noteq> 0 then Returns (Inl (ExitError status []))
                  else (case Unmarshal L out of
                          Inl err \<Rightarrow> Returns (Inl (JSONError err))
                        | Inr predictions \<Rightarrow> Returns (Inr predictions)))\<close>
  using assms(3)
  unfolding callPythonARIMA_run [OF json_Marshal_Inr assms(1) assms(2)]
  by (cases \<open>runExe w name (''{"prices":['' @ join_comma (map (FormatFloat L) prices) @ '']}'')\<close>)
    (simp_all split: sum.splits)

text \<open>Witness for C8: the run that succeeds.\<close>

theorem request_payload_on_stdin_witness:
  \<open>tempFile world_ok = Inr ''/tmp/arima_predict_1.exe''
   \<and> writeExe world_ok = None
   \<and> started (runExe world_ok ''/tmp/arima_predict_1.exe''
        (''{"prices":['' @ join_comma (map (FormatFloat sample_lib) [100, 101, 102, 103, 104]) @ '']}''))
   \<and> spawn_inputs (fst (callPythonARIMA sample_lib world_ok [100, 101, 102, 103, 104]))
       = [''{"prices":[100,101,102,103,104]}'']
   \<and> snd (callPythonARIMA sample_lib world_ok [100, 101, 102, 103, 104]) = Returns (Inr [105, 106])\<close>
proof -
  have st: \<open>started (runExe world_ok ''/tmp/arima_predict_1.exe''
        (''{"prices":['' @ join_comma (map (FormatFloat sample_lib) [100, 101, 102, 103, 104]) @ '']}''))\<close>
    by (simp add: world_ok_simps)
  have shown: \<open>''{"prices":['' @ join_comma (map (FormatFloat sample_lib) [100, 101, 102, 103, 104]) @ '']}''
      = ''{"prices":[100,101,102,103,104]}''\<close>
    by (simp add: sample_lib_def itoa.simps)
  note inst = request_payload_on_stdin [OF world_ok_simps(1) world_ok_simps(2) st]
  have \<open>spawn_inputs (fst (callPythonARIMA sample_lib world_ok [100, 101, 102, 103, 104]))
       = [''{"prices":[100,101,102,103,104]}'']\<close>
    using inst unfolding shown by blast
  moreover have "snd (callPythonARIMA sample_lib world_ok [100, 101, 102, 103, 104])
      = Returns (Inr [105, 106])"
    using inst by (simp add: world_ok_simps sample_lib_simps)
  ultimately show ?thesis
    using world_ok_simps(1) world_ok_simps(2) st by blast
qed

text \<open>
  Claim C10. The request written to the predictor depends on the prices only: in any two
  runs with the same prices, whatever the temporary name, the process and the disk do,
  every input given to a child is the same text. The chart handed to \<^verbatim>\<open>p.Save\<close> depends
  on the prices, the forecast and the symbol only: in any two runs it is the same chart,
  and there is exactly one.
\<close>

theorem pipeline_deterministic:
  "(\<forall>s1 \<in> set (spawn_inputs (fst (callPythonARIMA L w1 prices))).
      \<forall>s2 \<in> set (spawn_inputs (fst (callPythonARIMA L w2 prices))). s1 = s2)
   \<and> saved_plots (fst (plotData w1 prices predictions symbol))
       = saved_plots (fst (plotData w2 prices predictions symbol))
   \<and> length (saved_plots (fst (plotData w1 prices predictions symbol))) = 1"
proof -
  have "s1 = s2"
    if "s1 \<in> set (spawn_inputs (fst (callPythonARIMA L w1 prices)))"
      and "s2 \<in> set (spawn_inputs (fst (callPythonARIMA L w2 prices)))" for s1 s2
    using that spawn_inputs_callPythonARIMA [of L w1 prices]
      spawn_inputs_callPythonARIMA [of L w2 prices]
    by blast
  then show ?thesis
    by (simp add: plotData_eq Let_def)
qed

text \<open>Witness for C10: two runs that differ in everything but the prices.\<close>

theorem pipeline_deterministic_witness:
  \<open>''{"prices":[100,101,102,103,104]}''
     \<in> set (spawn_inputs (fst (callPythonARIMA sample_lib world_ok [100, 101, 102, 103, 104])))
   \<and> ''{"prices":[100,101,102,103,104]}''
     \<in> set (spawn_inputs (fst (callPythonARIMA sample_lib world_other [100, 101, 102, 103, 104])))
   \<and> hd (spawn_inputs (fst (callPythonARIMA sample_lib world_ok [100, 101, 102, 103, 104])))
       = hd (spawn_inputs (fst (callPythonARIMA sample_lib world_other [100, 101, 102, 103, 104])))
   \<and> saved_plots (fst (plotData world_ok [100, 101, 102, 103, 104] [105, 106] ''AAPL''))
       = saved_plots (fst (plotData world_other [100, 101, 102, 103, 104] [105, 106] ''AAPL''))\<close>
proof -
  have a: \<open>spawn_inputs (fst (callPythonARIMA sample_lib world_ok [100, 101, 102, 103, 104]))
      = [''{"prices":[100,101,102,103,104]}'']\<close>
    by (simp add: sample_ok)
  have b: \<open>spawn_inputs (fst (callPythonARIMA sample_lib world_other [100, 101, 102, 103, 104]))
      = [''{"prices":[100,101,102,103,104]}'']\<close>
    by (simp add: sample_other)
  have ma: "hd (spawn_inputs (fst (callPythonARIMA sample_lib world_ok [100, 101, 102, 103, 104])))
      \<in> set (spawn_inputs (fst (callPythonARIMA sample_lib world_ok [100, 101, 102, 103, 104])))"
    unfolding a by simp
  have mb: "hd (spawn_inputs (fst (callPythonARIMA sample_lib world_other [100, 101, 102, 103, 104])))
      \<in> set (spawn_inputs (fst (callPythonARIMA sample_lib world_other [100, 101, 102, 103, 104])))"
    unfolding b by simp
  note inst = pipeline_deterministic [of sample_lib world_ok "[100, 101, 102, 103, 104]"
      world_other "[105, 106]" "''AAPL''"]
  have "hd (spawn_inputs (fst (callPythonARIMA sample_lib world_ok [100, 101, 102, 103, 104])))
       = hd (spawn_inputs (fst (callPythonARIMA sample_lib world_other [100, 101, 102, 103, 104])))"
    using inst ma mb by blast
  moreover have "saved_plots (fst (plotData world_ok [100, 101, 102, 103, 104] [105, 106] ''AAPL''))
       = saved_plots (fst (plotData world_other [100, 101, 102, 103, 104] [105, 106] ''AAPL''))"
    using inst by blast
  ultimately show ?thesis
    using a b by simp
qed

end
